theory Spec2Isabelle
  imports Main
begin

section \<open>The micropayment channel client (src/lib/uraiden.ts)\<close>

text \<open>
  A shallow embedding of the \<^verbatim>\<open>MicroRaiden\<close> class. Big integers (\<^verbatim>\<open>BigNumber\<close>)
  are \<open>int\<close>, block numbers are \<open>nat\<close>, optional fields are \<open>option\<close>. A thrown
  \<^verbatim>\<open>Error\<close> is a value of type \<open>error\<close>; since the client object outlives a throw,
  every operation returns its outcome together with the client state.

  Names follow the source, except where Isabelle reserves them or two records share a
  field: \<^verbatim>\<open>MicroChannel.proof\<close> is \<open>cproof\<close>, \<^verbatim>\<open>MicroChannelInfo.block\<close> is
  \<open>stateBlock\<close>, \<^verbatim>\<open>String.includes\<close> is \<open>str_includes\<close>.
\<close>

subsection \<open>Data model\<close>

record MicroProof =
  balance :: int
  sig :: "string option"

record MicroChannel =
  account :: string
  receiver :: string
  block :: nat
  cproof :: MicroProof
  next_proof :: "MicroProof option"
  closing_sig :: "string option"

record MicroChannelInfo =
  state :: string
  stateBlock :: nat
  deposit :: int
  withdrawn :: int

text \<open>One constructor for each \<^verbatim>\<open>throw\<close> of the source, named after the spec's error kinds.\<close>

datatype error =
    NoValidChannelInfo
  | InvalidChallenge
  | NoChannelFound
  | NoOpenChannel nat
  | InvalidChannel
  | ChannelNotOpen
  | InsufficientChannelFunds int int
  | SignatureMismatch string string
  | MissingSignature
  | InvalidPendingProof
  | SettleWrongState string
  | SettleTooEarly nat nat int
  | TypeError
  | External string

text \<open>JavaScript truthiness of an optional string: \<^verbatim>\<open>undefined\<close> and \<^verbatim>\<open>''\<close> are falsy.\<close>

definition truthy :: "string option \<Rightarrow> bool" where
  "truthy s = (case s of None \<Rightarrow> False | Some t \<Rightarrow> t \<noteq> [])"

subsection \<open>Decimal strings\<close>

definition digit_char :: "nat \<Rightarrow> char" where
  "digit_char d = char_of (48 + d)"

fun toString_nat :: "nat \<Rightarrow> string" where
  "toString_nat n =
     (if n < 10 then [digit_char n]
      else toString_nat (n div 10) @ [digit_char (n mod 10)])"

declare toString_nat.simps [simp del]

text \<open>
  The digit value that bn.js's \<^verbatim>\<open>parseBase\<close> gives a character: with
  \<^verbatim>\<open>c = charCode - 48\<close>, a lower-case letter (\<^verbatim>\<open>c >= 49\<close>) is \<^verbatim>\<open>c - 49 + 10\<close>, an
  upper-case letter (\<^verbatim>\<open>c >= 17\<close>) is \<^verbatim>\<open>c - 17 + 10\<close>, anything else is \<^verbatim>\<open>c\<close>. The
  base is not checked against the digit.
\<close>

definition digit_val :: "char \<Rightarrow> nat" where
  "digit_val ch =
     (let c = of_char ch - 48
      in if c \<ge> 49 then c - 49 + 10 else if c \<ge> 17 then c - 17 + 10 else c)"

definition parse_digits :: "string \<Rightarrow> nat" where
  "parse_digits s = foldl (\<lambda>a c. a * 10 + digit_val c) 0 s"

text \<open>
  The big-integer library bn.js (4.x) is not part of the sources; the four operations
  below are written after the library.
  \<^item> \<^verbatim>\<open>toString()\<close> is the base-10 form, with a leading \<^verbatim>\<open>-\<close> for a negative number.
  \<^item> \<^verbatim>\<open>toJSON()\<close> is \<^verbatim>\<open>toString(16)\<close>: the base-16 form, lower case, no prefix.
  \<^item> \<^verbatim>\<open>new BN(string)\<close> reads the string in base 10.
  \<^item> \<^verbatim>\<open>gt(num)\<close> is \<^verbatim>\<open>cmp(num) === 1\<close>, and \<^verbatim>\<open>cmp\<close> expects a big integer. Called
    with a JavaScript number, \<^verbatim>\<open>num.negative\<close> is \<^verbatim>\<open>undefined\<close>: a non-negative
    receiver takes the branch \<^verbatim>\<open>this.negative === 0 && num.negative !== 0\<close> and compares
    greater, whatever the number; a negative receiver goes on to the word-wise
    comparison, where reading \<^verbatim>\<open>num.words[i]\<close> throws a \<^verbatim>\<open>TypeError\<close>.
\<close>

definition BN_toString :: "int \<Rightarrow> string" where
  "BN_toString n =
     (if n < 0 then CHR ''-'' # toString_nat (nat (- n)) else toString_nat (nat n))"

definition hex_digit :: "nat \<Rightarrow> char" where
  "hex_digit d = (if d < 10 then char_of (48 + d) else char_of (87 + d))"

fun toString16_nat :: "nat \<Rightarrow> string" where
  "toString16_nat n =
     (if n < 16 then [hex_digit n]
      else toString16_nat (n div 16) @ [hex_digit (n mod 16)])"

declare toString16_nat.simps [simp del]

definition BN_toJSON :: "int \<Rightarrow> string" where
  "BN_toJSON n =
     (if n < 0 then CHR ''-'' # toString16_nat (nat (- n)) else toString16_nat (nat n))"

definition BN_gt_number :: "int \<Rightarrow> int \<Rightarrow> error + bool" where
  "BN_gt_number a num = (if 0 \<le> a then Inr True else Inl TypeError)"

definition new_BigNumber :: "string \<Rightarrow> int" where
  "new_BigNumber s =
     (case s of
        [] \<Rightarrow> 0
      | c # r \<Rightarrow> if c = CHR ''-'' then - int (parse_digits r) else int (parse_digits s))"

subsection \<open>The persisted record\<close>

text \<open>
  \<^verbatim>\<open>localStorage\<close> holds one JSON text per key. The text is represented by the
  document it denotes: \<^verbatim>\<open>JSON.stringify\<close> drops \<^verbatim>\<open>undefined\<close> fields and writes a
  big integer through its \<^verbatim>\<open>toJSON\<close>, and \<^verbatim>\<open>JSON.parse\<close> reads the document back.
\<close>

record StoredProof =
  sp_balance :: string
  sp_sig :: "string option"

record StoredChannel =
  sc_account :: string
  sc_receiver :: string
  sc_block :: nat
  sc_proof :: "StoredProof option"
  sc_next_proof :: "StoredProof option"
  sc_closing_sig :: "string option"

definition stringify_proof :: "MicroProof \<Rightarrow> StoredProof" where
  "stringify_proof p = \<lparr>sp_balance = BN_toJSON (balance p), sp_sig = sig p\<rparr>"

definition JSON_stringify :: "MicroChannel \<Rightarrow> StoredChannel" where
  "JSON_stringify c =
     \<lparr>sc_account = account c, sc_receiver = receiver c, sc_block = block c,
      sc_proof = Some (stringify_proof (cproof c)),
      sc_next_proof = map_option stringify_proof (next_proof c),
      sc_closing_sig = closing_sig c\<rparr>"

subsection \<open>The client\<close>

text \<open>
  \<open>channel\<close> is \<open>None\<close> after \<^verbatim>\<open>delete this.channel\<close>. \<open>localStorage\<close> is \<open>None\<close> when
  \<^verbatim>\<open>typeof localStorage === 'undefined'\<close>. \<open>contract_address\<close> is
  \<^verbatim>\<open>this.contract.options.address\<close>.
\<close>

record MicroRaiden =
  channel :: "MicroChannel option"
  challenge :: int
  startBlock :: nat
  contract_address :: string
  localStorage :: "(string \<rightharpoonup> StoredChannel) option"

definition storage_key :: "string \<Rightarrow> string \<Rightarrow> string" where
  "storage_key a r = a @ ''|'' @ r"

definition revive_proof :: "StoredProof \<Rightarrow> MicroProof" where
  "revive_proof sp = \<lparr>balance = new_BigNumber (sp_balance sp), sig = sp_sig sp\<rparr>"

definition loadStoredChannel :: "string \<Rightarrow> string \<Rightarrow> MicroRaiden \<Rightarrow> bool \<times> MicroRaiden" where
  "loadStoredChannel acc rcv st =
     (case localStorage st of
        None \<Rightarrow> (False, st\<lparr>channel := None\<rparr>)
      | Some ls \<Rightarrow>
          (case ls (storage_key acc rcv) of
             None \<Rightarrow> (False, st\<lparr>channel := None\<rparr>)
           | Some doc \<Rightarrow>
               (case sc_proof doc of
                  None \<Rightarrow> (False, st)
                | Some sp \<Rightarrow>
                    if sp_balance sp = [] then (False, st)
                    else (True, st\<lparr>channel := Some
                      \<lparr>account = sc_account doc, receiver = sc_receiver doc,
                       block = sc_block doc, cproof = revive_proof sp,
                       next_proof = map_option revive_proof (sc_next_proof doc),
                       closing_sig = sc_closing_sig doc\<rparr>\<rparr>))))"

definition setChannel :: "MicroChannel \<Rightarrow> MicroRaiden \<Rightarrow> MicroRaiden" where
  "setChannel c st =
     (let st1 = st\<lparr>channel := Some c\<rparr>
      in case localStorage st1 of
           None \<Rightarrow> st1
         | Some ls \<Rightarrow>
             st1\<lparr>localStorage :=
               Some (ls(storage_key (account c) (receiver c) \<mapsto> JSON_stringify c))\<rparr>)"

definition isChannelValid :: "MicroChannel option \<Rightarrow> MicroRaiden \<Rightarrow> bool" where
  "isChannelValid copt st =
     (case (case copt of None \<Rightarrow> channel st | Some c \<Rightarrow> Some c) of
        None \<Rightarrow> False
      | Some c \<Rightarrow> \<not> (receiver c = [] \<or> block c = 0 \<or> account c = []))"

subsection \<open>The canonical tuple\<close>

record TypedData =
  td_type :: string
  td_name :: string
  td_value :: string

definition getBalanceProofSignatureParams ::
  "MicroRaiden \<Rightarrow> MicroChannel \<Rightarrow> MicroProof \<Rightarrow> TypedData list" where
  "getBalanceProofSignatureParams st c p =
     [\<lparr>td_type = ''string'', td_name = ''message_id'',
       td_value = ''Sender balance proof signature''\<rparr>,
      \<lparr>td_type = ''address'', td_name = ''receiver'', td_value = receiver c\<rparr>,
      \<lparr>td_type = ''uint32'', td_name = ''block_created'',
       td_value = toString_nat (block c)\<rparr>,
      \<lparr>td_type = ''uint192'', td_name = ''balance'',
       td_value = BN_toString (balance p)\<rparr>,
      \<lparr>td_type = ''address'', td_name = ''contract'',
       td_value = contract_address st\<rparr>]"

subsection \<open>Accepting, confirming and resetting proofs\<close>

text \<open>
  \<open>recover\<close> is \<^verbatim>\<open>recoverTypedSignature\<close> of eth-sig-util, a parameter: only its
  declaration is in the sources.
\<close>

definition verifyProof ::
  "(TypedData list \<Rightarrow> string \<Rightarrow> string) \<Rightarrow> MicroProof \<Rightarrow> MicroRaiden
     \<Rightarrow> (error + bool) \<times> MicroRaiden" where
  "verifyProof recover p st =
     (if \<not> truthy (sig p) then (Inl MissingSignature, st)
      else case channel st of
        None \<Rightarrow> (Inl TypeError, st)
      | Some c \<Rightarrow>
          let params = getBalanceProofSignatureParams st c p;
              recovered = recover params (the (sig p))
          in if recovered \<noteq> account c then (Inr False, st)
             else (Inr True, setChannel (c\<lparr>cproof := p, next_proof := None\<rparr>) st))"

definition confirmPayment :: "MicroProof \<Rightarrow> MicroRaiden \<Rightarrow> (error + unit) \<times> MicroRaiden" where
  "confirmPayment p st =
     (case channel st of
        None \<Rightarrow> (Inl TypeError, st)
      | Some c \<Rightarrow>
          (case next_proof c of
             None \<Rightarrow> (Inl InvalidPendingProof, st)
           | Some np \<Rightarrow>
               if \<not> truthy (sig np) \<or> sig np \<noteq> sig p then (Inl InvalidPendingProof, st)
               else (Inr (), setChannel (c\<lparr>cproof := np, next_proof := None\<rparr>) st)))"

definition setBalance :: "int \<Rightarrow> MicroRaiden \<Rightarrow> (error + unit) \<times> MicroRaiden" where
  "setBalance v st =
     (case channel st of
        None \<Rightarrow> (Inl TypeError, st)
      | Some c \<Rightarrow>
          if balance (cproof c) = v then (Inr (), st)
          else (Inr (), setChannel
                  (c\<lparr>cproof := \<lparr>balance = v, sig = None\<rparr>, next_proof := None\<rparr>) st))"

subsection \<open>The chain, as the client observes it\<close>

text \<open>
  The event log and the views of the channel-manager contract. \<^verbatim>\<open>getPastEvents\<close>
  (web3) returns, in log order, the events of one kind that match every filter field and
  lie at or after \<^verbatim>\<open>fromBlock\<close>. The channel-info view may fail (\<open>None\<close>); otherwise it
  yields the deposit (index 1) and the withdrawn amount (index 4). The source tests the
  deposit with \<^verbatim>\<open>info[1].gt(0)\<close>, the big-integer comparison applied to a JavaScript
  number (\<open>BN_gt_number\<close>).
\<close>

record ChannelCreated =
  cc_sender_address :: string
  cc_receiver_address :: string
  cc_blockNumber :: nat

record ChannelEvent =
  ev_sender_address :: string
  ev_receiver_address :: string
  ev_open_block_number :: nat
  ev_blockNumber :: nat

record chain =
  createdEvents :: "ChannelCreated list"
  closeRequestedEvents :: "ChannelEvent list"
  settledEvents :: "ChannelEvent list"
  blockNumber :: nat
  challenge_period :: int
  channelInfoView :: "string \<Rightarrow> string \<Rightarrow> nat \<Rightarrow> (int \<times> int) option"


definition getPastEvents ::
  "ChannelEvent list \<Rightarrow> string \<Rightarrow> string \<Rightarrow> nat option \<Rightarrow> nat \<Rightarrow> ChannelEvent list" where
  "getPastEvents evs a r ob fromBlock =
     filter (\<lambda>e. ev_sender_address e = a \<and> ev_receiver_address e = r
                 \<and> (case ob of None \<Rightarrow> True | Some b \<Rightarrow> ev_open_block_number e = b)
                 \<and> fromBlock \<le> ev_blockNumber e) evs"


text \<open>
  The second component of the result lists the calls of the contract's channel-info
  view that were made, with their arguments.
\<close>

definition getChannelInfo ::
  "chain \<Rightarrow> MicroRaiden \<Rightarrow> MicroChannel option
     \<Rightarrow> (error + MicroChannelInfo) \<times> (string \<times> string \<times> nat) list" where
  "getChannelInfo ch st copt =
     (let c0 = (case copt of None \<Rightarrow> channel st | Some c \<Rightarrow> Some c)
      in if \<not> isChannelValid c0 st then (Inl NoValidChannelInfo, [])
         else case c0 of
           None \<Rightarrow> (Inl NoValidChannelInfo, [])
         | Some c \<Rightarrow>
             let closeEvents = getPastEvents (closeRequestedEvents ch)
                   (account c) (receiver c) (Some (block c)) (block c);
                 closed = (case closeEvents of [] \<Rightarrow> 0 | e # _ \<Rightarrow> ev_blockNumber e);
                 settleEvents = getPastEvents (settledEvents ch)
                   (account c) (receiver c) (Some (block c))
                   (if closed \<noteq> 0 then closed else block c);
                 settled = (case settleEvents of [] \<Rightarrow> 0 | e # _ \<Rightarrow> ev_blockNumber e)
             in if settled \<noteq> 0
                then (Inr \<lparr>state = ''settled'', stateBlock = settled,
                           deposit = 0, withdrawn = 0\<rparr>, [])
                else case channelInfoView ch (account c) (receiver c) (block c) of
                  None \<Rightarrow> (Inl (External ''getChannelInfo''),
                            [(account c, receiver c, block c)])
                | Some (d, w) \<Rightarrow>
                    (case BN_gt_number d 0 of
                       Inl e \<Rightarrow> (Inl e, [(account c, receiver c, block c)])
                     | Inr g \<Rightarrow>
                         if \<not> g
                         then (Inl InvalidChannel, [(account c, receiver c, block c)])
                         else (Inr \<lparr>state = (if closed \<noteq> 0 then ''closed''
                                             else ''opened''),
                                    stateBlock = (if closed \<noteq> 0 then closed
                                                  else block c),
                                    deposit = d, withdrawn = w\<rparr>,
                               [(account c, receiver c, block c)])))"

subsection \<open>Discovery from chain history\<close>







subsection \<open>Signing\<close>

text \<open>
  The wallet and node behind web3, and eth-sig-util. A request yields \<open>Inr\<close> of its
  result or \<open>Inl\<close> of the message of the error it throws. \<open>send_signTypedData\<close> is the
  callback-style request of \<^verbatim>\<open>signNewProof\<close>: its \<open>Inr\<close> value is what the variable
  \<^verbatim>\<open>sig\<close> holds when the call returns (\<^verbatim>\<open>''\<close> if the callback has not run by then).
\<close>

record provider =
  send_signTypedData :: "TypedData list \<Rightarrow> string \<Rightarrow> string + string"
  personal_sign :: "string \<Rightarrow> string \<Rightarrow> string + string"
  eth_sign :: "string \<Rightarrow> string \<Rightarrow> string + string"
  typedSignatureHash :: "TypedData list \<Rightarrow> string"
  recoverTypedSignature :: "TypedData list \<Rightarrow> string \<Rightarrow> string"
  send_settle :: "string \<Rightarrow> nat \<Rightarrow> string \<Rightarrow> string + string"
  getTransactionReceipt :: "string \<Rightarrow> nat \<Rightarrow> nat option"
  getBlockNumber :: "nat \<Rightarrow> nat"

fun str_includes :: "string \<Rightarrow> string \<Rightarrow> bool" where
  "str_includes [] t = (t = [])"
| "str_includes (c # s) t = (take (length t) (c # s) = t \<or> str_includes s t)"

definition encodeHex :: "string \<Rightarrow> string" where
  "encodeHex val = concat (map (\<lambda>c. [hex_digit (of_char c div 16), hex_digit (of_char c mod 16)]) val)"

definition signMessage :: "provider \<Rightarrow> string \<Rightarrow> MicroRaiden \<Rightarrow> error + string" where
  "signMessage pr msg st =
     (if \<not> isChannelValid None st then Inl NoValidChannelInfo
      else case channel st of
        None \<Rightarrow> Inl NoValidChannelInfo
      | Some c \<Rightarrow>
          let hex = (if take 2 msg = ''0x'' then msg else ''0x'' @ encodeHex msg)
          in case personal_sign pr hex (account c) of
               Inr s \<Rightarrow> Inr s
             | Inl m \<Rightarrow>
                 if m \<noteq> [] \<and> (str_includes m ''Method not found''
                               \<or> str_includes m ''is not a function''
                               \<or> str_includes m ''not supported'')
                 then (case eth_sign pr (account c) hex of
                         Inr s \<Rightarrow> Inr s
                       | Inl m2 \<Rightarrow> Inl (External m2))
                 else Inl (External m))"

definition signNewProof ::
  "provider \<Rightarrow> MicroProof option \<Rightarrow> MicroRaiden \<Rightarrow> (error + MicroProof) \<times> MicroRaiden" where
  "signNewProof pr popt st =
     (if \<not> isChannelValid None st then (Inl NoValidChannelInfo, st)
      else case channel st of
        None \<Rightarrow> (Inl NoValidChannelInfo, st)
      | Some c \<Rightarrow>
          let p = (case popt of None \<Rightarrow> cproof c | Some q \<Rightarrow> q)
          in if truthy (sig p) then (Inr p, st)
             else
               let params = getBalanceProofSignatureParams st c p
               in case (case send_signTypedData pr params (account c) of
                          Inr s \<Rightarrow> Inr s
                        | Inl m \<Rightarrow>
                            if m \<noteq> [] \<and> str_includes m ''User denied'' then Inl (External m)
                            else signMessage pr (typedSignatureHash pr params) st) of
                    Inl e \<Rightarrow> (Inl e, st)
                  | Inr s \<Rightarrow>
                      let recovered = recoverTypedSignature pr params s
                      in if recovered \<noteq> account c
                         then (Inl (SignatureMismatch recovered (account c)), st)
                         else
                           let p2 = p\<lparr>sig := Some s\<rparr>
                           in if balance p2 = balance (cproof c)
                              then (Inr p2, setChannel
                                      (c\<lparr>cproof := p2, next_proof := Some p2\<rparr>) st)
                              else (Inr p2, setChannel (c\<lparr>next_proof := Some p2\<rparr>) st))"

definition incrementBalanceAndSign ::
  "provider \<Rightarrow> chain \<Rightarrow> int \<Rightarrow> MicroRaiden \<Rightarrow> (error + MicroProof) \<times> MicroRaiden" where
  "incrementBalanceAndSign pr ch amount st =
     (if \<not> isChannelValid None st then (Inl NoValidChannelInfo, st)
      else case channel st of
        None \<Rightarrow> (Inl NoValidChannelInfo, st)
      | Some c \<Rightarrow>
          let p = \<lparr>balance = balance (cproof c) + amount, sig = None\<rparr>
          in case fst (getChannelInfo ch st None) of
               Inl e \<Rightarrow> (Inl e, st)
             | Inr info \<Rightarrow>
                 if state info \<noteq> ''opened'' then (Inl ChannelNotOpen, st)
                 else if balance p > deposit info
                 then (Inl (InsufficientChannelFunds (deposit info) (balance p)), st)
                 else signNewProof pr (Some p) st)"

subsection \<open>Settling\<close>

text \<open>
  \<^verbatim>\<open>waitTx\<close> polls without bound. The \<open>i\<close>-th poll reads
  \<open>getTransactionReceipt pr tx i\<close> (the block number of the receipt, if there is one)
  and \<open>getBlockNumber pr i\<close>; with \<open>fuel\<close> polls left and no answer the result is
  \<open>None\<close>.
\<close>

fun waitTx :: "provider \<Rightarrow> string \<Rightarrow> nat \<Rightarrow> nat \<Rightarrow> nat \<Rightarrow> nat option" where
  "waitTx pr tx confirmations i 0 = None"
| "waitTx pr tx confirmations i (Suc fuel) =
     (case getTransactionReceipt pr tx i of
        None \<Rightarrow> waitTx pr tx confirmations (Suc i) fuel
      | Some rb \<Rightarrow>
          if rb = 0 then waitTx pr tx confirmations (Suc i) fuel
          else if int (getBlockNumber pr i) - int rb < int confirmations
          then waitTx pr tx confirmations (Suc i) fuel
          else Some rb)"

datatype 'a outcome = Threw error | Returned 'a | Pending

text \<open>
  The second component of the result lists the \<^verbatim>\<open>settle\<close> transactions handed to the
  contract: receiver, open block and the \<^verbatim>\<open>from\<close> account.
\<close>

definition settleChannel ::
  "nat \<Rightarrow> provider \<Rightarrow> chain \<Rightarrow> MicroRaiden
     \<Rightarrow> string outcome \<times> (string \<times> nat \<times> string) list" where
  "settleChannel fuel pr ch st =
     (if \<not> isChannelValid None st then (Threw NoValidChannelInfo, [])
      else case channel st of
        None \<Rightarrow> (Threw NoValidChannelInfo, [])
      | Some c \<Rightarrow>
          (case fst (getChannelInfo ch st None) of
             Inl e \<Rightarrow> (Threw e, [])
           | Inr info \<Rightarrow>
               let currentBlock = blockNumber ch
               in if state info \<noteq> ''closed''
                  then (Threw (SettleWrongState (state info)), [])
                  else if challenge st \<noteq> 0
                          \<and> int currentBlock < int (stateBlock info) + challenge st
                  then (Threw (SettleTooEarly currentBlock (stateBlock info)
                                 (challenge st)), [])
                  else case send_settle pr (receiver c) (block c) (account c) of
                         Inl m \<Rightarrow> (Threw (External m),
                                   [(receiver c, block c, account c)])
                       | Inr txHash \<Rightarrow>
                           (case waitTx pr txHash 0 0 fuel of
                              None \<Rightarrow> (Pending, [(receiver c, block c, account c)])
                            | Some rb \<Rightarrow>
                                (Returned txHash, [(receiver c, block c, account c)]))))"

subsection \<open>Concrete clients, chains and providers\<close>

text \<open>Small inputs on which the theorems below are exercised.\<close>

definition ex_channel :: MicroChannel where
  "ex_channel =
     \<lparr>account = ''0xa'', receiver = ''0xb'', block = 100,
      cproof = \<lparr>balance = 3, sig = Some ''s3''\<rparr>,
      next_proof = Some \<lparr>balance = 5, sig = Some ''s5''\<rparr>, closing_sig = None\<rparr>"

definition ex_client :: MicroRaiden where
  "ex_client =
     \<lparr>channel = Some ex_channel, challenge = 0, startBlock = 0,
      contract_address = ''0xc'', localStorage = Some Map.empty\<rparr>"

definition ex_recover :: "TypedData list \<Rightarrow> string \<Rightarrow> string" where
  "ex_recover params s = (if s = ''s7'' then ''0xa'' else ''0xe'')"

definition ex_provider :: provider where
  "ex_provider =
     \<lparr>send_signTypedData = (\<lambda>params a. Inr ''s7''),
      personal_sign = (\<lambda>h a. Inl ''not supported''),
      eth_sign = (\<lambda>a h. Inr ''s7''),
      typedSignatureHash = (\<lambda>params. ''0xhash''),
      recoverTypedSignature = ex_recover,
      send_settle = (\<lambda>r b a. Inr ''0xtx''),
      getTransactionReceipt = (\<lambda>tx i. if i < 2 then None else Some 120),
      getBlockNumber = (\<lambda>i. 120 + i)\<rparr>"

definition ex_chain :: chain where
  "ex_chain =
     \<lparr>createdEvents =
        [\<lparr>cc_sender_address = ''0xa'', cc_receiver_address = ''0xb'', cc_blockNumber = 90\<rparr>,
         \<lparr>cc_sender_address = ''0xa'', cc_receiver_address = ''0xb'', cc_blockNumber = 100\<rparr>],
      closeRequestedEvents = [],
      settledEvents =
        [\<lparr>ev_sender_address = ''0xa'', ev_receiver_address = ''0xb'',
          ev_open_block_number = 90, ev_blockNumber = 95\<rparr>],
      blockNumber = 130, challenge_period = 500,
      channelInfoView = (\<lambda>a r b. if b = 100 then Some (10, 0) else None)\<rparr>"

definition ex_chain_closed :: chain where
  "ex_chain_closed =
     ex_chain\<lparr>closeRequestedEvents :=
        [\<lparr>ev_sender_address = ''0xa'', ev_receiver_address = ''0xb'',
          ev_open_block_number = 100, ev_blockNumber = 110\<rparr>]\<rparr>"

definition ex_chain_unfunded :: chain where
  "ex_chain_unfunded = ex_chain\<lparr>channelInfoView := (\<lambda>a r b. Some (0, 0))\<rparr>"

definition ex_channel16 :: MicroChannel where
  "ex_channel16 =
     \<lparr>account = ''0xa'', receiver = ''0xb'', block = 100,
      cproof = \<lparr>balance = 16, sig = Some ''s16''\<rparr>,
      next_proof = None, closing_sig = None\<rparr>"

definition ex_chain_settled :: chain where
  "ex_chain_settled =
     ex_chain_closed\<lparr>settledEvents :=
        [\<lparr>ev_sender_address = ''0xa'', ev_receiver_address = ''0xb'',
          ev_open_block_number = 100, ev_blockNumber = 120\<rparr>]\<rparr>"

section \<open>Properties\<close>

subsection \<open>Strings of big integers\<close>

text \<open>
  The base-10 string of a big integer is read back exactly by \<open>new_BigNumber\<close>; the
  JSON form is the base-16 string, which \<open>new_BigNumber\<close> reads in base 10 all the same.
\<close>

lemma digit_val_digit_char: "d < 10 \<Longrightarrow> digit_val (digit_char d) = d"
  by (simp add: digit_val_def digit_char_def Let_def)

lemma parse_digits_snoc: "parse_digits (s @ [c]) = parse_digits s * 10 + digit_val c"
  by (simp add: parse_digits_def)

lemma parse_digits_toString_nat: "parse_digits (toString_nat n) = n"
proof (induction n rule: toString_nat.induct)
  case (1 n)
  show ?case
  proof (cases "n < 10")
    case True
    then show ?thesis
      by (simp add: toString_nat.simps [of n] parse_digits_def digit_val_digit_char)
  next
    case False
    with 1 have "parse_digits (toString_nat (n div 10)) = n div 10" by simp
    with False show ?thesis
      by (simp add: toString_nat.simps [of n] parse_digits_snoc digit_val_digit_char)
  qed
qed

lemma toString_nat_nonempty: "toString_nat n \<noteq> []"
  by (subst toString_nat.simps) simp

lemma digit_char_not_minus: "d < 10 \<Longrightarrow> digit_char d \<noteq> CHR ''-''"
proof
  assume d: "d < 10" and "digit_char d = CHR ''-''"
  then have "of_char (digit_char d) = (of_char CHR ''-'' :: nat)" by simp
  with d show False by (simp add: digit_char_def)
qed

lemma hd_toString_nat: "hd (toString_nat n) \<noteq> CHR ''-''"
proof (induction n rule: toString_nat.induct)
  case (1 n)
  show ?case
  proof (cases "n < 10")
    case True
    then show ?thesis by (simp add: toString_nat.simps [of n] digit_char_not_minus)
  next
    case False
    with 1 have "hd (toString_nat (n div 10)) \<noteq> CHR ''-''" by simp
    with False show ?thesis
      by (simp add: toString_nat.simps [of n] toString_nat_nonempty)
  qed
qed

lemma new_BigNumber_toString_nat: "new_BigNumber (toString_nat n) = int n"
proof (cases "toString_nat n")
  case Nil
  then show ?thesis by (simp add: toString_nat_nonempty)
next
  case (Cons c r)
  with hd_toString_nat [of n] have "c \<noteq> CHR ''-''" by simp
  with Cons parse_digits_toString_nat [of n] show ?thesis
    by (simp add: new_BigNumber_def)
qed

lemma new_BigNumber_BN_toString: "new_BigNumber (BN_toString n) = n"
proof (cases "n < 0")
  case True
  then show ?thesis
    by (simp add: BN_toString_def new_BigNumber_def parse_digits_toString_nat)
next
  case False
  then show ?thesis
    by (simp add: BN_toString_def new_BigNumber_toString_nat)
qed

lemma toString16_nat_nonempty: "toString16_nat n \<noteq> []"
  by (subst toString16_nat.simps) simp

lemma BN_toJSON_nonempty: "BN_toJSON n \<noteq> []"
  by (simp add: BN_toJSON_def toString16_nat_nonempty)

lemma sp_balance_stringify: "sp_balance (stringify_proof p) = BN_toJSON (balance p)"
  by (simp add: stringify_proof_def)

lemma BN_toJSON_16: "BN_toJSON 16 = ''10''"
  by code_simp

lemma new_BigNumber_10: "new_BigNumber ''10'' = 10"
  by (simp add: new_BigNumber_def parse_digits_def digit_val_def)

subsection \<open>Events, validity and the concrete inputs\<close>

lemma getPastEvents_from:
  "getPastEvents evs a r ob fb = e # es \<Longrightarrow> fb \<le> ev_blockNumber e"
proof -
  assume "getPastEvents evs a r ob fb = e # es"
  then have "e \<in> set (getPastEvents evs a r ob fb)" by simp
  then show ?thesis by (simp add: getPastEvents_def)
qed

lemma isChannelValid_Some:
  "isChannelValid (Some c) st = (receiver c \<noteq> [] \<and> block c \<noteq> 0 \<and> account c \<noteq> [])"
  by (simp add: isChannelValid_def)

lemma isChannelValid_channel: "isChannelValid (channel st) st = isChannelValid None st"
  by (cases "channel st") (simp_all add: isChannelValid_def)

lemma isChannelValid_None_channel:
  "isChannelValid None st \<Longrightarrow> \<exists>c. channel st = Some c"
  by (cases "channel st") (simp_all add: isChannelValid_def)

lemma getChannelInfo_invalid:
  "\<not> isChannelValid None st \<Longrightarrow> getChannelInfo ch st None = (Inl NoValidChannelInfo, [])"
  by (simp add: getChannelInfo_def isChannelValid_channel)

lemma getChannelInfo_ok_valid:
  "fst (getChannelInfo ch st None) = Inr info \<Longrightarrow> isChannelValid None st"
  using getChannelInfo_invalid [of st ch] by (cases "isChannelValid None st") simp_all

lemma ex_info_open:
  "getChannelInfo ex_chain ex_client None =
     (Inr \<lparr>state = ''opened'', stateBlock = 100, deposit = 10, withdrawn = 0\<rparr>,
      [(''0xa'', ''0xb'', 100)])"
  by (simp add: getChannelInfo_def BN_gt_number_def isChannelValid_def ex_chain_def ex_client_def
      ex_channel_def getPastEvents_def)

lemma ex_info_closed:
  "getChannelInfo ex_chain_closed ex_client None =
     (Inr \<lparr>state = ''closed'', stateBlock = 110, deposit = 10, withdrawn = 0\<rparr>,
      [(''0xa'', ''0xb'', 100)])"
  by (simp add: getChannelInfo_def BN_gt_number_def isChannelValid_def ex_chain_closed_def ex_chain_def
      ex_client_def ex_channel_def getPastEvents_def)





lemma settleChannel_invalid:
  "\<not> isChannelValid None st \<Longrightarrow> settleChannel fuel pr ch st = (Threw NoValidChannelInfo, [])"
  by (simp add: settleChannel_def)

lemma settleChannel_info_failed:
  "fst (getChannelInfo ch st None) = Inl e \<Longrightarrow> snd (settleChannel fuel pr ch st) = []"
  by (cases "channel st") (simp_all add: settleChannel_def)

lemma settleChannel_run:
  assumes "channel st = Some c" and "fst (getChannelInfo ch st None) = Inr info"
  shows "settleChannel fuel pr ch st =
     (if state info \<noteq> ''closed'' then (Threw (SettleWrongState (state info)), [])
      else if challenge st \<noteq> 0 \<and> int (blockNumber ch) < int (stateBlock info) + challenge st
      then (Threw (SettleTooEarly (blockNumber ch) (stateBlock info) (challenge st)), [])
      else (case send_settle pr (receiver c) (block c) (account c) of
              Inl m \<Rightarrow> Threw (External m)
            | Inr txHash \<Rightarrow>
                (case waitTx pr txHash 0 0 fuel of
                   None \<Rightarrow> Pending
                 | Some rb \<Rightarrow> Returned txHash),
            [(receiver c, block c, account c)]))"
proof -
  from assms(2) have "isChannelValid None st" by (rule getChannelInfo_ok_valid)
  with assms show ?thesis
    by (simp add: settleChannel_def Let_def split: sum.splits option.splits)
qed

subsection \<open>Accepting a counterparty proof\<close>

text \<open>
  C1: a proof whose \<^verbatim>\<open>sig\<close> is missing (or the empty string, which the source's test
  \<^verbatim>\<open>!proof.sig\<close> treats alike) makes \<open>verifyProof\<close> fail with \<open>MissingSignature\<close> and
  leaves the client as it was. For a proof carrying a signature and a tracked channel
  \<open>c\<close>: if the signer recovered over the canonical tuple is \<open>account c\<close>, the result is
  true, the channel's proof is the given proof, \<open>next_proof\<close> is cleared, and the new
  channel is written to storage under its key (when storage exists); otherwise the
  result is false and the client is unchanged.
\<close>

theorem verifyProof_spec:
  "(\<not> truthy (sig p) \<longrightarrow> verifyProof recover p st = (Inl MissingSignature, st))
   \<and> (truthy (sig p) \<and> channel st = Some c \<longrightarrow>
        verifyProof recover p st =
          (if recover (getBalanceProofSignatureParams st c p) (the (sig p)) = account c
           then (Inr True,
                 st\<lparr>channel := Some (c\<lparr>cproof := p, next_proof := None\<rparr>),
                    localStorage :=
                      map_option
                        (\<lambda>ls. ls(storage_key (account c) (receiver c) \<mapsto>
                                 JSON_stringify (c\<lparr>cproof := p, next_proof := None\<rparr>)))
                        (localStorage st)\<rparr>)
           else (Inr False, st)))"
  by (cases "localStorage st") (auto simp: verifyProof_def setChannel_def Let_def)

text \<open>
  C1 at concrete proofs: no signature; a signature that recovers to the sender; one
  that recovers to another address.
\<close>

theorem verifyProof_spec_witness:
  "verifyProof ex_recover \<lparr>balance = 7, sig = None\<rparr> ex_client = (Inl MissingSignature, ex_client)
   \<and> fst (verifyProof ex_recover \<lparr>balance = 7, sig = Some ''s7''\<rparr> ex_client) = Inr True
   \<and> channel (snd (verifyProof ex_recover \<lparr>balance = 7, sig = Some ''s7''\<rparr> ex_client))
       = Some (ex_channel\<lparr>cproof := \<lparr>balance = 7, sig = Some ''s7''\<rparr>, next_proof := None\<rparr>)
   \<and> verifyProof ex_recover \<lparr>balance = 7, sig = Some ''s8''\<rparr> ex_client = (Inr False, ex_client)"
  using verifyProof_spec [of "\<lparr>balance = 7, sig = None\<rparr>" ex_recover ex_client ex_channel]
    verifyProof_spec [of "\<lparr>balance = 7, sig = Some ''s7''\<rparr>" ex_recover ex_client ex_channel]
    verifyProof_spec [of "\<lparr>balance = 7, sig = Some ''s8''\<rparr>" ex_recover ex_client ex_channel]
  by (simp add: truthy_def ex_client_def ex_channel_def ex_recover_def)

subsection \<open>Signing a new proof\<close>

text \<open>
  C2 as stated fails: when the balance of the signed proof equals the confirmed balance,
  the source stores \<^verbatim>\<open>{ proof, next_proof: proof }\<close>, so \<open>next_proof\<close> is set as well.
\<close>

theorem signNewProof_no_pending_counterexample:
  "\<not> truthy (sig \<lparr>balance = 3, sig = None\<rparr>)
   \<and> balance \<lparr>balance = 3, sig = None\<rparr> = balance (cproof ex_channel)
   \<and> channel ex_client = Some ex_channel
   \<and> fst (signNewProof ex_provider (Some \<lparr>balance = 3, sig = None\<rparr>) ex_client)
       = Inr \<lparr>balance = 3, sig = Some ''s7''\<rparr>
   \<and> channel (snd (signNewProof ex_provider (Some \<lparr>balance = 3, sig = None\<rparr>) ex_client))
       = Some (ex_channel\<lparr>cproof := \<lparr>balance = 3, sig = Some ''s7''\<rparr>,
                           next_proof := Some \<lparr>balance = 3, sig = Some ''s7''\<rparr>\<rparr>)"
  by (simp add: signNewProof_def isChannelValid_def truthy_def setChannel_def Let_def
      ex_client_def ex_channel_def ex_provider_def ex_recover_def)

text \<open>
  C2, amended: when \<open>signNewProof\<close> succeeds on an unsigned proof, the returned proof
  is the given one with a signature that recovers to the sender. If its balance equals
  the confirmed balance, it is stored both as the channel's proof and as \<open>next_proof\<close>;
  otherwise it is stored as \<open>next_proof\<close> only and the confirmed proof is unchanged.
\<close>

theorem signNewProof_spec:
  assumes "signNewProof pr (Some p) st = (Inr p2, st2)"
    and "\<not> truthy (sig p)" and "channel st = Some c"
  shows "balance p2 = balance p \<and> sig p2 \<noteq> None
       \<and> recoverTypedSignature pr (getBalanceProofSignatureParams st c p) (the (sig p2))
           = account c
       \<and> (balance p = balance (cproof c) \<longrightarrow>
            st2 = setChannel (c\<lparr>cproof := p2, next_proof := Some p2\<rparr>) st
            \<and> channel st2 = Some (c\<lparr>cproof := p2, next_proof := Some p2\<rparr>))
       \<and> (balance p \<noteq> balance (cproof c) \<longrightarrow>
            st2 = setChannel (c\<lparr>next_proof := Some p2\<rparr>) st
            \<and> channel st2 = Some (c\<lparr>next_proof := Some p2\<rparr>)
            \<and> cproof (the (channel st2)) = cproof c)"
  using assms
  by (cases "localStorage st")
     (auto simp: signNewProof_def setChannel_def Let_def
       split: if_splits sum.splits)

text \<open>
  C2, amended, at a proof of another balance and at one of the confirmed balance.
\<close>

theorem signNewProof_spec_witness:
  "signNewProof ex_provider (Some \<lparr>balance = 7, sig = None\<rparr>) ex_client
     = (Inr \<lparr>balance = 7, sig = Some ''s7''\<rparr>,
        setChannel (ex_channel\<lparr>next_proof := Some \<lparr>balance = 7, sig = Some ''s7''\<rparr>\<rparr>) ex_client)
   \<and> signNewProof ex_provider (Some \<lparr>balance = 3, sig = None\<rparr>) ex_client
     = (Inr \<lparr>balance = 3, sig = Some ''s7''\<rparr>,
        setChannel (ex_channel\<lparr>cproof := \<lparr>balance = 3, sig = Some ''s7''\<rparr>,
                               next_proof := Some \<lparr>balance = 3, sig = Some ''s7''\<rparr>\<rparr>) ex_client)"
proof -
  obtain st7 where run7: "signNewProof ex_provider (Some \<lparr>balance = 7, sig = None\<rparr>) ex_client
     = (Inr \<lparr>balance = 7, sig = Some ''s7''\<rparr>, st7)"
    by (simp add: signNewProof_def isChannelValid_def truthy_def Let_def
        ex_client_def ex_channel_def ex_provider_def ex_recover_def)
  obtain st3 where run3: "signNewProof ex_provider (Some \<lparr>balance = 3, sig = None\<rparr>) ex_client
     = (Inr \<lparr>balance = 3, sig = Some ''s7''\<rparr>, st3)"
    by (simp add: signNewProof_def isChannelValid_def truthy_def Let_def
        ex_client_def ex_channel_def ex_provider_def ex_recover_def)
  have u7: "\<not> truthy (sig \<lparr>balance = 7, sig = None\<rparr>)" by (simp add: truthy_def)
  have u3: "\<not> truthy (sig \<lparr>balance = 3, sig = None\<rparr>)" by (simp add: truthy_def)
  have c: "channel ex_client = Some ex_channel" by (simp add: ex_client_def)
  have b: "balance (cproof ex_channel) = 3" by (simp add: ex_channel_def)
  from signNewProof_spec [OF run7 u7 c] b
  have "st7 = setChannel (ex_channel\<lparr>next_proof := Some \<lparr>balance = 7, sig = Some ''s7''\<rparr>\<rparr>)
          ex_client"
    by simp
  moreover
  from signNewProof_spec [OF run3 u3 c] b
  have "st3 = setChannel (ex_channel\<lparr>cproof := \<lparr>balance = 3, sig = Some ''s7''\<rparr>,
                               next_proof := Some \<lparr>balance = 3, sig = Some ''s7''\<rparr>\<rparr>) ex_client"
    by simp
  ultimately show ?thesis using run7 run3 by simp
qed

subsection \<open>Incrementing the balance\<close>

text \<open>
  C3: for a valid tracked channel whose info was fetched: when the state is not
  \<^verbatim>\<open>'opened'\<close>, \<open>incrementBalanceAndSign\<close> fails with \<open>ChannelNotOpen\<close>; when it is
  \<^verbatim>\<open>'opened'\<close> and the confirmed balance plus the amount exceeds the deposit, it fails
  with \<open>InsufficientChannelFunds\<close> carrying the deposit and the required balance. In
  both cases the client, and so \<open>next_proof\<close>, is unchanged. (The state test comes first,
  as in the source.)
\<close>

theorem incrementBalanceAndSign_guards:
  assumes "isChannelValid None st" and "channel st = Some c"
    and "fst (getChannelInfo ch st None) = Inr info"
  shows "(state info \<noteq> ''opened'' \<longrightarrow>
            incrementBalanceAndSign pr ch amount st = (Inl ChannelNotOpen, st))
       \<and> (state info = ''opened'' \<and> balance (cproof c) + amount > deposit info \<longrightarrow>
            incrementBalanceAndSign pr ch amount st =
              (Inl (InsufficientChannelFunds (deposit info) (balance (cproof c) + amount)), st))"
  using assms by (simp add: incrementBalanceAndSign_def)

text \<open>
  C3 on an open channel of deposit 10 with balance 3 and amount 8, and on a closed one.
\<close>

theorem incrementBalanceAndSign_guards_witness:
  "incrementBalanceAndSign ex_provider ex_chain 8 ex_client
     = (Inl (InsufficientChannelFunds 10 11), ex_client)
   \<and> incrementBalanceAndSign ex_provider ex_chain_closed 8 ex_client
     = (Inl ChannelNotOpen, ex_client)"
proof -
  have v: "isChannelValid None ex_client"
    by (simp add: isChannelValid_def ex_client_def ex_channel_def)
  have c: "channel ex_client = Some ex_channel" by (simp add: ex_client_def)
  have i1: "fst (getChannelInfo ex_chain ex_client None)
    = Inr \<lparr>state = ''opened'', stateBlock = 100, deposit = 10, withdrawn = 0\<rparr>"
    by (simp add: ex_info_open)
  have i2: "fst (getChannelInfo ex_chain_closed ex_client None)
    = Inr \<lparr>state = ''closed'', stateBlock = 110, deposit = 10, withdrawn = 0\<rparr>"
    by (simp add: ex_info_closed)
  show ?thesis
    using incrementBalanceAndSign_guards [OF v c i1, of ex_provider 8]
      incrementBalanceAndSign_guards [OF v c i2, of ex_provider 8]
    by (simp add: ex_channel_def)
qed

subsection \<open>Confirming a payment\<close>

text \<open>
  C4: with a tracked channel \<open>c\<close>, \<open>confirmPayment\<close> succeeds exactly when
  \<open>next_proof\<close> is present, carries a (non-empty) signature and that signature is the
  supplied proof's. Then the channel's proof is the old \<open>next_proof\<close>, \<open>next_proof\<close> is
  cleared and the channel is written to storage; otherwise it fails with
  \<open>InvalidPendingProof\<close> and the client is unchanged.
\<close>

theorem confirmPayment_spec:
  assumes "channel st = Some c"
  shows "((\<exists>np. next_proof c = Some np \<and> truthy (sig np) \<and> sig np = sig p) \<longrightarrow>
            confirmPayment p st =
              (Inr (),
               st\<lparr>channel := Some (c\<lparr>cproof := the (next_proof c), next_proof := None\<rparr>),
                  localStorage :=
                    map_option
                      (\<lambda>ls. ls(storage_key (account c) (receiver c) \<mapsto>
                               JSON_stringify
                                 (c\<lparr>cproof := the (next_proof c), next_proof := None\<rparr>)))
                      (localStorage st)\<rparr>))
       \<and> (\<not> (\<exists>np. next_proof c = Some np \<and> truthy (sig np) \<and> sig np = sig p) \<longrightarrow>
            confirmPayment p st = (Inl InvalidPendingProof, st))"
  using assms
  by (cases "localStorage st"; cases "next_proof c")
     (auto simp: confirmPayment_def setChannel_def Let_def)

text \<open>
  C4 with the pending proof's signature and with another signature.
\<close>

theorem confirmPayment_spec_witness:
  "fst (confirmPayment \<lparr>balance = 5, sig = Some ''s5''\<rparr> ex_client) = Inr ()
   \<and> channel (snd (confirmPayment \<lparr>balance = 5, sig = Some ''s5''\<rparr> ex_client))
       = Some (ex_channel\<lparr>cproof := \<lparr>balance = 5, sig = Some ''s5''\<rparr>, next_proof := None\<rparr>)
   \<and> confirmPayment \<lparr>balance = 5, sig = Some ''s6''\<rparr> ex_client
       = (Inl InvalidPendingProof, ex_client)"
  using confirmPayment_spec [of ex_client ex_channel "\<lparr>balance = 5, sig = Some ''s5''\<rparr>"]
    confirmPayment_spec [of ex_client ex_channel "\<lparr>balance = 5, sig = Some ''s6''\<rparr>"]
  by (simp add: truthy_def ex_client_def ex_channel_def)

subsection \<open>Discovery\<close>



subsection \<open>Channel info\<close>

text \<open>
  What \<open>getChannelInfo\<close> returns for a valid channel \<open>c\<close>. Let \<open>closeEvents\<close> be the
  close-request events for \<open>(account, receiver, block)\<close> and \<open>settleEvents\<close> the
  settlement events for the same triple from the close block on (from the open block if
  there is no close event). If \<open>settleEvents\<close> is not empty, the result is state
  \<^verbatim>\<open>'settled'\<close> at the settlement block with deposit and withdrawn 0, and the
  channel-info view is not called. Otherwise the view is called once with
  \<open>(account, receiver, block)\<close>, and every non-negative deposit, 0 included, passes the
  deposit test: the state is \<^verbatim>\<open>'closed'\<close> at the close block when a close event exists
  and \<^verbatim>\<open>'opened'\<close> at the open block when not.
\<close>

lemma getChannelInfo_cases:
  assumes c0: "(case copt of None \<Rightarrow> channel st | Some c' \<Rightarrow> Some c') = Some c"
    and valid: "isChannelValid (Some c) st"
  shows "let closeEvents = getPastEvents (closeRequestedEvents ch)
               (account c) (receiver c) (Some (block c)) (block c);
             settleEvents = getPastEvents (settledEvents ch)
               (account c) (receiver c) (Some (block c))
               (case closeEvents of [] \<Rightarrow> block c | e # es \<Rightarrow> ev_blockNumber e)
         in (settleEvents \<noteq> [] \<longrightarrow>
               getChannelInfo ch st copt =
                 (Inr \<lparr>state = ''settled'', stateBlock = ev_blockNumber (hd settleEvents),
                       deposit = 0, withdrawn = 0\<rparr>, []))
          \<and> (settleEvents = [] \<longrightarrow>
               (case channelInfoView ch (account c) (receiver c) (block c) of
                  None \<Rightarrow>
                    getChannelInfo ch st copt =
                      (Inl (External ''getChannelInfo''), [(account c, receiver c, block c)])
                | Some (d, w) \<Rightarrow>
                    getChannelInfo ch st copt =
                      (if 0 \<le> d
                       then Inr \<lparr>state = (if closeEvents = [] then ''opened'' else ''closed''),
                                 stateBlock = (if closeEvents = [] then block c
                                               else ev_blockNumber (hd closeEvents)),
                                 deposit = d, withdrawn = w\<rparr>
                       else Inl TypeError,
                       [(account c, receiver c, block c)])))"
proof -
  define closeEvents where "closeEvents = getPastEvents (closeRequestedEvents ch)
               (account c) (receiver c) (Some (block c)) (block c)"
  define closed where "closed = (case closeEvents of [] \<Rightarrow> 0 | e # es \<Rightarrow> ev_blockNumber e)"
  define fb where "fb = (if closed \<noteq> 0 then closed else block c)"
  define settleEvents where "settleEvents = getPastEvents (settledEvents ch)
               (account c) (receiver c) (Some (block c)) fb"
  define settled where "settled = (case settleEvents of [] \<Rightarrow> 0 | e # es \<Rightarrow> ev_blockNumber e)"
  from valid have b: "block c \<noteq> 0" by (simp add: isChannelValid_Some)
  have closed_iff: "closed \<noteq> 0 \<longleftrightarrow> closeEvents \<noteq> []"
  proof (cases closeEvents)
    case Nil
    then show ?thesis by (simp add: closed_def)
  next
    case (Cons e es)
    with getPastEvents_from [of "closeRequestedEvents ch" "account c" "receiver c"
        "Some (block c)" "block c" e es] b
    show ?thesis by (simp add: closed_def closeEvents_def)
  qed
  have closed_hd: "closeEvents \<noteq> [] \<Longrightarrow> closed = ev_blockNumber (hd closeEvents)"
    by (cases closeEvents) (simp_all add: closed_def)
  have fb_eq: "fb = (case closeEvents of [] \<Rightarrow> block c | e # es \<Rightarrow> ev_blockNumber e)"
  proof (cases closeEvents)
    case Nil
    then show ?thesis by (simp add: fb_def closed_def)
  next
    case (Cons e es)
    with closed_iff have "closed \<noteq> 0" by simp
    with Cons show ?thesis by (simp add: fb_def closed_def)
  qed
  have fb_pos: "fb \<noteq> 0" using b by (simp add: fb_def)
  have settled_iff: "settled \<noteq> 0 \<longleftrightarrow> settleEvents \<noteq> []"
  proof (cases settleEvents)
    case Nil
    then show ?thesis by (simp add: settled_def)
  next
    case (Cons e es)
    with getPastEvents_from [of "settledEvents ch" "account c" "receiver c"
        "Some (block c)" fb e es] fb_pos
    show ?thesis by (simp add: settled_def settleEvents_def)
  qed
  have settled_hd: "settleEvents \<noteq> [] \<Longrightarrow> settled = ev_blockNumber (hd settleEvents)"
    by (cases settleEvents) (simp_all add: settled_def)
  have run: "getChannelInfo ch st copt =
     (if settled \<noteq> 0
      then (Inr \<lparr>state = ''settled'', stateBlock = settled, deposit = 0, withdrawn = 0\<rparr>, [])
      else case channelInfoView ch (account c) (receiver c) (block c) of
             None \<Rightarrow> (Inl (External ''getChannelInfo''), [(account c, receiver c, block c)])
           | Some (d, w) \<Rightarrow>
               (case BN_gt_number d 0 of
                  Inl e \<Rightarrow> (Inl e, [(account c, receiver c, block c)])
                | Inr g \<Rightarrow>
                    if \<not> g then (Inl InvalidChannel, [(account c, receiver c, block c)])
                    else (Inr \<lparr>state = (if closed \<noteq> 0 then ''closed'' else ''opened''),
                               stateBlock = (if closed \<noteq> 0 then closed else block c),
                               deposit = d, withdrawn = w\<rparr>,
                          [(account c, receiver c, block c)])))"
    unfolding settled_def settleEvents_def fb_def closed_def closeEvents_def
    using c0 valid
    by (simp add: getChannelInfo_def Let_def)
  have part1: "settleEvents \<noteq> [] \<Longrightarrow> getChannelInfo ch st copt =
      (Inr \<lparr>state = ''settled'', stateBlock = ev_blockNumber (hd settleEvents),
            deposit = 0, withdrawn = 0\<rparr>, [])"
    using run settled_iff settled_hd by simp
  have part2: "settleEvents = [] \<Longrightarrow>
      (case channelInfoView ch (account c) (receiver c) (block c) of
         None \<Rightarrow>
           getChannelInfo ch st copt =
             (Inl (External ''getChannelInfo''), [(account c, receiver c, block c)])
       | Some (d, w) \<Rightarrow>
           getChannelInfo ch st copt =
             (if 0 \<le> d
              then Inr \<lparr>state = (if closeEvents = [] then ''opened'' else ''closed''),
                        stateBlock = (if closeEvents = [] then block c
                                      else ev_blockNumber (hd closeEvents)),
                        deposit = d, withdrawn = w\<rparr>
              else Inl TypeError,
              [(account c, receiver c, block c)]))"
    using run settled_iff closed_iff closed_hd
    by (auto simp: BN_gt_number_def split: option.splits)
  show ?thesis
    unfolding Let_def
    using part1 part2
    by (simp only: closeEvents_def [symmetric] fb_eq [symmetric] settleEvents_def [symmetric])
       blast
qed

lemma getChannelInfo_cases_examples:
  "getChannelInfo ex_chain_settled ex_client None =
     (Inr \<lparr>state = ''settled'', stateBlock = 120, deposit = 0, withdrawn = 0\<rparr>, [])
   \<and> getChannelInfo ex_chain_closed ex_client None =
     (Inr \<lparr>state = ''closed'', stateBlock = 110, deposit = 10, withdrawn = 0\<rparr>,
      [(''0xa'', ''0xb'', 100)])
   \<and> getChannelInfo ex_chain ex_client None =
     (Inr \<lparr>state = ''opened'', stateBlock = 100, deposit = 10, withdrawn = 0\<rparr>,
      [(''0xa'', ''0xb'', 100)])"
proof -
  have c0: "(case None of None \<Rightarrow> channel ex_client | Some c' \<Rightarrow> Some c') = Some ex_channel"
    by (simp add: ex_client_def)
  have v: "isChannelValid (Some ex_channel) ex_client"
    by (simp add: isChannelValid_def ex_channel_def)
  show ?thesis
    using getChannelInfo_cases [OF c0 v, of ex_chain_settled]
      getChannelInfo_cases [OF c0 v, of ex_chain_closed]
      getChannelInfo_cases [OF c0 v, of ex_chain]
    by (simp add: Let_def getPastEvents_def ex_chain_settled_def ex_chain_closed_def
        ex_chain_def ex_channel_def)
qed

text \<open>
  C6: the claim says that \<open>getChannelInfo\<close> fails with \<open>InvalidChannel\<close> unless the
  deposit returned by the view is strictly positive, and the source means to test that
  (\<^verbatim>\<open>if (!(info[1].gt(0))) throw ...\<close>). The test compares a big integer with a
  JavaScript number through \<^verbatim>\<open>gt\<close> instead of \<^verbatim>\<open>gtn\<close>, and so never fails for a deposit
  of 0. Here the channel of \<open>ex_client\<close> (opened at block 100, neither closed nor
  settled) has deposit 0 on chain, and \<open>getChannelInfo\<close> returns state \<^verbatim>\<open>'opened'\<close> with
  deposit 0. The other parts of the claim hold (\<open>getChannelInfo_cases\<close>).
\<close>

theorem getChannelInfo_accepts_zero_deposit:
  "channelInfoView ex_chain_unfunded ''0xa'' ''0xb'' 100 = Some (0, 0)
   \<and> getChannelInfo ex_chain_unfunded ex_client None =
       (Inr \<lparr>state = ''opened'', stateBlock = 100, deposit = 0, withdrawn = 0\<rparr>,
        [(''0xa'', ''0xb'', 100)])"
  by (simp add: getChannelInfo_def BN_gt_number_def isChannelValid_def getPastEvents_def
      ex_chain_unfunded_def ex_chain_def ex_client_def ex_channel_def)

subsection \<open>Settling\<close>

text \<open>
  C7 as stated fails: the source tests \<^verbatim>\<open>this.challenge && ...\<close> on the client's
  cached challenge period, which is 0 until \<open>getChallengePeriod\<close> has run. Here the
  contract's period is 500, the channel was closed at block 110, the current block is
  130, and the settle transaction is submitted.
\<close>

theorem settleChannel_ignores_contract_period_counterexample:
  "fst (getChannelInfo ex_chain_closed ex_client None)
     = Inr \<lparr>state = ''closed'', stateBlock = 110, deposit = 10, withdrawn = 0\<rparr>
   \<and> blockNumber ex_chain_closed = 130
   \<and> challenge_period ex_chain_closed = 500
   \<and> challenge ex_client = 0
   \<and> settleChannel 3 ex_provider ex_chain_closed ex_client
       = (Returned ''0xtx'', [(''0xb'', 100, ''0xa'')])"
proof -
  have i: "fst (getChannelInfo ex_chain_closed ex_client None)
     = Inr \<lparr>state = ''closed'', stateBlock = 110, deposit = 10, withdrawn = 0\<rparr>"
    by (simp add: ex_info_closed)
  have c: "channel ex_client = Some ex_channel" by (simp add: ex_client_def)
  have ch: "challenge ex_client = 0" by (simp add: ex_client_def)
  have w: "waitTx ex_provider ''0xtx'' 0 0 3 = Some 120"
    by (simp add: numeral_3_eq_3 ex_provider_def)
  have s: "send_settle ex_provider r b a = Inr ''0xtx''" for r b a
    by (simp add: ex_provider_def)
  have "settleChannel 3 ex_provider ex_chain_closed ex_client
       = (Returned ''0xtx'', [(''0xb'', 100, ''0xa'')])"
    by (simp add: settleChannel_run [OF c i] ch w s) (simp add: ex_channel_def)
  with i ch show ?thesis by (simp add: ex_chain_closed_def ex_chain_def)
qed

text \<open>
  C7, amended: \<open>settleChannel\<close> submits \<^verbatim>\<open>settle(receiver, block)\<close> only when the
  fetched state is \<^verbatim>\<open>'closed'\<close> and the cached challenge period is 0 or the current
  block is at least close block plus cached period, and in that case it submits exactly
  that one transaction; when the state is \<^verbatim>\<open>'closed'\<close>, the cached period is not 0 and
  the current block is below close block plus cached period, it fails with
  \<open>SettleTooEarly\<close> and submits nothing. This holds for every number of polls.
\<close>

theorem settleChannel_spec:
  "(snd (settleChannel fuel pr ch st) \<noteq> [] \<longrightarrow>
      (\<exists>c info. channel st = Some c \<and> fst (getChannelInfo ch st None) = Inr info
         \<and> state info = ''closed''
         \<and> (challenge st = 0 \<or> int (stateBlock info) + challenge st \<le> int (blockNumber ch))
         \<and> snd (settleChannel fuel pr ch st) = [(receiver c, block c, account c)]))
   \<and> (\<forall>c info. channel st = Some c \<and> fst (getChannelInfo ch st None) = Inr info
         \<and> state info = ''closed''
         \<and> (challenge st = 0 \<or> int (stateBlock info) + challenge st \<le> int (blockNumber ch))
         \<longrightarrow> snd (settleChannel fuel pr ch st) = [(receiver c, block c, account c)])
   \<and> (\<forall>info. fst (getChannelInfo ch st None) = Inr info \<and> state info = ''closed''
         \<and> challenge st \<noteq> 0 \<and> int (blockNumber ch) < int (stateBlock info) + challenge st
         \<longrightarrow> settleChannel fuel pr ch st =
               (Threw (SettleTooEarly (blockNumber ch) (stateBlock info) (challenge st)), []))"
proof (intro conjI allI impI)
  assume sent: "snd (settleChannel fuel pr ch st) \<noteq> []"
  show "\<exists>c info. channel st = Some c \<and> fst (getChannelInfo ch st None) = Inr info
         \<and> state info = ''closed''
         \<and> (challenge st = 0 \<or> int (stateBlock info) + challenge st \<le> int (blockNumber ch))
         \<and> snd (settleChannel fuel pr ch st) = [(receiver c, block c, account c)]"
  proof (cases "fst (getChannelInfo ch st None)")
    case (Inl e)
    with sent settleChannel_info_failed show ?thesis by blast
  next
    case (Inr info)
    then have "isChannelValid None st" by (rule getChannelInfo_ok_valid)
    then obtain c where c: "channel st = Some c"
      using isChannelValid_None_channel by blast
    from sent have "state info = ''closed''
         \<and> (challenge st = 0 \<or> int (stateBlock info) + challenge st \<le> int (blockNumber ch))
         \<and> snd (settleChannel fuel pr ch st) = [(receiver c, block c, account c)]"
      unfolding settleChannel_run [OF c Inr] by (simp split: if_splits)
    with c Inr show ?thesis by blast
  qed
next
  fix c info
  assume h: "channel st = Some c \<and> fst (getChannelInfo ch st None) = Inr info
         \<and> state info = ''closed''
         \<and> (challenge st = 0 \<or> int (stateBlock info) + challenge st \<le> int (blockNumber ch))"
  then have run: "settleChannel fuel pr ch st = (if state info \<noteq> ''closed'' then (Threw (SettleWrongState (state info)), [])
      else if challenge st \<noteq> 0 \<and> int (blockNumber ch) < int (stateBlock info) + challenge st
      then (Threw (SettleTooEarly (blockNumber ch) (stateBlock info) (challenge st)), [])
      else (case send_settle pr (receiver c) (block c) (account c) of
              Inl m \<Rightarrow> Threw (External m)
            | Inr txHash \<Rightarrow>
                (case waitTx pr txHash 0 0 fuel of
                   None \<Rightarrow> Pending
                 | Some rb \<Rightarrow> Returned txHash),
            [(receiver c, block c, account c)]))"
    using settleChannel_run by blast
  from h show "snd (settleChannel fuel pr ch st) = [(receiver c, block c, account c)]"
    unfolding run by auto
next
  fix info
  assume h: "fst (getChannelInfo ch st None) = Inr info \<and> state info = ''closed''
         \<and> challenge st \<noteq> 0 \<and> int (blockNumber ch) < int (stateBlock info) + challenge st"
  then have i: "fst (getChannelInfo ch st None) = Inr info" by simp
  then have "isChannelValid None st" by (rule getChannelInfo_ok_valid)
  then obtain c where c: "channel st = Some c"
    using isChannelValid_None_channel by blast
  from h show "settleChannel fuel pr ch st =
               (Threw (SettleTooEarly (blockNumber ch) (stateBlock info) (challenge st)), [])"
    unfolding settleChannel_run [OF c i] by simp
qed

text \<open>
  C7, amended, with a cached period of 500 (too early) and of 20 (submitted).
\<close>

theorem settleChannel_spec_witness:
  "settleChannel 3 ex_provider ex_chain_closed (ex_client\<lparr>challenge := 500\<rparr>)
     = (Threw (SettleTooEarly 130 110 500), [])
   \<and> snd (settleChannel 3 ex_provider ex_chain_closed (ex_client\<lparr>challenge := 20\<rparr>))
     = [(''0xb'', 100, ''0xa'')]"
proof -
  have i: "fst (getChannelInfo ex_chain_closed (ex_client\<lparr>challenge := k\<rparr>) None)
     = Inr \<lparr>state = ''closed'', stateBlock = 110, deposit = 10, withdrawn = 0\<rparr>" for k
    by (simp add: getChannelInfo_def BN_gt_number_def isChannelValid_def ex_chain_closed_def ex_chain_def
      ex_client_def ex_channel_def getPastEvents_def)
  have b: "blockNumber ex_chain_closed = 130"
    by (simp add: ex_chain_closed_def ex_chain_def)
  have c: "channel (ex_client\<lparr>challenge := k\<rparr>) = Some ex_channel" for k
    by (simp add: ex_client_def)
  note early = settleChannel_spec [of 3 ex_provider ex_chain_closed
      "ex_client\<lparr>challenge := 500\<rparr>", THEN conjunct2, THEN conjunct2, rule_format,
      of "\<lparr>state = ''closed'', stateBlock = 110, deposit = 10, withdrawn = 0\<rparr>"]
  have "settleChannel 3 ex_provider ex_chain_closed (ex_client\<lparr>challenge := 500\<rparr>)
     = (Threw (SettleTooEarly 130 110 500), [])"
    using early i [of 500] b by (simp add: ex_client_def)
  moreover
  note submit = settleChannel_spec [of 3 ex_provider ex_chain_closed
      "ex_client\<lparr>challenge := 20\<rparr>", THEN conjunct2, THEN conjunct1, rule_format,
      of ex_channel "\<lparr>state = ''closed'', stateBlock = 110, deposit = 10, withdrawn = 0\<rparr>"]
  have "snd (settleChannel 3 ex_provider ex_chain_closed (ex_client\<lparr>challenge := 20\<rparr>))
     = [(''0xb'', 100, ''0xa'')]"
    using submit i [of 20] b c [of 20] by (simp add: ex_client_def ex_channel_def)
  ultimately show ?thesis by simp
qed

subsection \<open>The channel store\<close>

text \<open>
  With storage available, \<open>loadStoredChannel\<close> after \<open>setChannel c\<close> finds the record,
  whatever channel the client tracks by then, and tracks \<open>c\<close> with each balance replaced
  by its JSON string read back.
\<close>

lemma save_load_reparse:
  assumes "localStorage st \<noteq> None"
  shows "loadStoredChannel (account c) (receiver c) ((setChannel c st)\<lparr>channel := x\<rparr>) =
     (True,
      (setChannel c st)\<lparr>channel := Some
         (c\<lparr>cproof := revive_proof (stringify_proof (cproof c)),
            next_proof := map_option (\<lambda>p. revive_proof (stringify_proof p)) (next_proof c)\<rparr>)\<rparr>)"
proof -
  from assms obtain ls where ls: "localStorage st = Some ls" by auto
  show ?thesis
    using ls
    by (simp add: loadStoredChannel_def setChannel_def JSON_stringify_def
        sp_balance_stringify BN_toJSON_nonempty option.map_comp comp_def)
qed

text \<open>
  C8: the claim says that \<open>setChannel c\<close> followed by
  \<open>loadStoredChannel (account c) (receiver c)\<close> yields a channel equal to \<open>c\<close>, with its
  balances exactly, and the source means to restore them
  (\<^verbatim>\<open>channel.proof.balance = new BigNumber(channel.proof.balance)\<close>). But
  \<^verbatim>\<open>JSON.stringify\<close> writes a balance through \<^verbatim>\<open>toJSON\<close>, in base 16, and
  \<^verbatim>\<open>new BigNumber\<close> reads the string in base 10. A channel with confirmed balance 16 is
  stored with the balance \<^verbatim>\<open>"10"\<close> and loaded with balance 10.
\<close>

theorem save_load_changes_balance:
  "balance (cproof ex_channel16) = 16
   \<and> channel (setChannel ex_channel16 ex_client) = Some ex_channel16
   \<and> loadStoredChannel ''0xa'' ''0xb'' (setChannel ex_channel16 ex_client) =
       (True,
        (setChannel ex_channel16 ex_client)\<lparr>channel := Some
           (ex_channel16\<lparr>cproof := \<lparr>balance = 10, sig = Some ''s16''\<rparr>\<rparr>)\<rparr>)"
proof -
  have h: "localStorage ex_client \<noteq> None" by (simp add: ex_client_def)
  have a: "account ex_channel16 = ''0xa''" and r: "receiver ex_channel16 = ''0xb''"
    and p: "cproof ex_channel16 = \<lparr>balance = 16, sig = Some ''s16''\<rparr>"
    and n: "next_proof ex_channel16 = None"
    by (simp_all add: ex_channel16_def)
  have t: "channel (setChannel ex_channel16 ex_client) = Some ex_channel16"
    by (simp add: setChannel_def ex_client_def)
  have e: "(setChannel ex_channel16 ex_client)\<lparr>channel := Some ex_channel16\<rparr>
      = setChannel ex_channel16 ex_client"
    by (simp add: setChannel_def ex_client_def)
  have v: "revive_proof (stringify_proof \<lparr>balance = 16, sig = Some ''s16''\<rparr>)
      = \<lparr>balance = 10, sig = Some ''s16''\<rparr>"
    by (simp add: revive_proof_def stringify_proof_def BN_toJSON_16 new_BigNumber_10)
  from save_load_reparse [OF h, of ex_channel16 "Some ex_channel16"]
  have "loadStoredChannel ''0xa'' ''0xb'' (setChannel ex_channel16 ex_client) =
       (True,
        (setChannel ex_channel16 ex_client)\<lparr>channel := Some
           (ex_channel16\<lparr>cproof := \<lparr>balance = 10, sig = Some ''s16''\<rparr>\<rparr>)\<rparr>)"
    by (simp add: a r p n e v)
  with p t show ?thesis by simp
qed

subsection \<open>Resetting the balance\<close>

text \<open>
  C9 as stated fails: \<open>setBalance\<close> returns at once when the value equals the confirmed
  balance, keeping the signature and \<open>next_proof\<close>.
\<close>

theorem setBalance_unconditional_counterexample:
  "setBalance 3 ex_client = (Inr (), ex_client)
   \<and> channel ex_client = Some ex_channel
   \<and> sig (cproof ex_channel) = Some ''s3''
   \<and> next_proof ex_channel = Some \<lparr>balance = 5, sig = Some ''s5''\<rparr>"
  by (simp add: setBalance_def ex_client_def ex_channel_def)

text \<open>
  C9, amended: with a tracked channel \<open>c\<close>, when the value differs from the confirmed
  balance, \<open>setBalance\<close> replaces the proof by the value without a signature, clears
  \<open>next_proof\<close> and writes the channel to storage; when the value equals the confirmed
  balance, the client is unchanged.
\<close>

theorem setBalance_spec:
  assumes "channel st = Some c"
  shows "(balance (cproof c) \<noteq> v \<longrightarrow>
            setBalance v st =
              (Inr (),
               st\<lparr>channel := Some (c\<lparr>cproof := \<lparr>balance = v, sig = None\<rparr>, next_proof := None\<rparr>),
                  localStorage :=
                    map_option
                      (\<lambda>ls. ls(storage_key (account c) (receiver c) \<mapsto>
                               JSON_stringify
                                 (c\<lparr>cproof := \<lparr>balance = v, sig = None\<rparr>, next_proof := None\<rparr>)))
                      (localStorage st)\<rparr>))
       \<and> (balance (cproof c) = v \<longrightarrow> setBalance v st = (Inr (), st))"
  using assms
  by (cases "localStorage st") (auto simp: setBalance_def setChannel_def Let_def)

text \<open>
  C9, amended, at a new value and at the confirmed one.
\<close>

theorem setBalance_spec_witness:
  "fst (setBalance 9 ex_client) = Inr ()
   \<and> channel (snd (setBalance 9 ex_client))
       = Some (ex_channel\<lparr>cproof := \<lparr>balance = 9, sig = None\<rparr>, next_proof := None\<rparr>)
   \<and> setBalance 3 ex_client = (Inr (), ex_client)"
  using setBalance_spec [of ex_client ex_channel 9] setBalance_spec [of ex_client ex_channel 3]
  by (simp add: ex_client_def ex_channel_def)

subsection \<open>A failed load\<close>

text \<open>
  C10: when storage is unavailable, or holds nothing under the key of
  \<open>(account, receiver)\<close>, \<open>loadStoredChannel\<close> returns false and forgets the tracked
  channel; every other field of the client, the stored records among them, is as
  before.
\<close>

theorem loadStoredChannel_miss:
  assumes "localStorage st = None
         \<or> (\<exists>ls. localStorage st = Some ls \<and> ls (storage_key acc rcv) = None)"
  shows "loadStoredChannel acc rcv st = (False, st\<lparr>channel := None\<rparr>)"
  using assms by (auto simp: loadStoredChannel_def)

text \<open>
  C10 with an empty store and without a store.
\<close>

theorem loadStoredChannel_miss_witness:
  "localStorage ex_client = Some Map.empty
   \<and> loadStoredChannel ''0xa'' ''0xb'' ex_client = (False, ex_client\<lparr>channel := None\<rparr>)
   \<and> loadStoredChannel ''0xa'' ''0xb'' (ex_client\<lparr>localStorage := None\<rparr>)
       = (False, ex_client\<lparr>localStorage := None, channel := None\<rparr>)"
proof -
  have h: "localStorage ex_client = Some Map.empty" by (simp add: ex_client_def)
  have h1: "localStorage ex_client = None
         \<or> (\<exists>ls. localStorage ex_client = Some ls \<and> ls (storage_key ''0xa'' ''0xb'') = None)"
    using h by simp
  have h2: "localStorage (ex_client\<lparr>localStorage := None\<rparr>) = None
         \<or> (\<exists>ls. localStorage (ex_client\<lparr>localStorage := None\<rparr>) = Some ls
                \<and> ls (storage_key ''0xa'' ''0xb'') = None)"
    by simp
  show ?thesis
    using loadStoredChannel_miss [OF h1] loadStoredChannel_miss [OF h2] h by simp
qed

end
